theory Spec2Isabelle
  imports Complex_Main
begin

section \<open>Clock, sleep and jitter\<close>

text \<open>
  The limiters of \<^verbatim>\<open>telegram_client.py\<close> (class TelegramClient) and of
  \<^verbatim>\<open>telegram_core.py\<close> (class TelegramCore) read the wall clock with
  \<^verbatim>\<open>time.time()\<close>, draw jitter with \<^verbatim>\<open>random.uniform\<close> and sleep.
  Times and durations are Python floats; they are modelled as \<^typ>\<open>real\<close>, so
  rounding, infinities and NaN are outside the model. Every clock reading and every random
  draw a function makes is an argument of its model, in the order the source makes them;
  the duration of a sleep is part of the result. A leading underscore of a Python name is
  dropped, since an Isabelle name cannot start with one.

  What the environment guarantees is stated where it is needed: the reading taken after a
  sleep of \<open>s\<close> seconds is at least \<open>s\<close> later than the reading taken before it,
  and a reading taken later is not smaller than one taken earlier.
\<close>

definition clock_ok :: "real \<Rightarrow> real option \<Rightarrow> real \<Rightarrow> bool" where
  "clock_ok before slept after =
     (case slept of None \<Rightarrow> before \<le> after | Some s \<Rightarrow> before + s \<le> after)"

section \<open>The global rate gate\<close>

text \<open>
  \<^verbatim>\<open>TelegramClient._wait_for_rate_limit\<close> (telegram_client.py, lines 94-106) and
  \<^verbatim>\<open>TelegramCore._wait_for_rate_limit\<close> (telegram_core.py, lines 276-289) have the
  same body, the second with \<^verbatim>\<open>await asyncio.sleep\<close> for \<^verbatim>\<open>time.sleep\<close>.
  \<open>current_time\<close> is the first clock reading, \<open>jitter\<close> the value of
  \<^verbatim>\<open>random.uniform(0, 0.05)\<close>, \<open>after\<close> the reading that is stored.
\<close>

record rate_gate =
  last_request_time :: "real option"
  min_request_delay :: real

definition wait_for_rate_limit ::
  "rate_gate \<Rightarrow> real \<Rightarrow> real \<Rightarrow> real \<Rightarrow> rate_gate \<times> real option" where
  "wait_for_rate_limit g current_time jitter after =
     (let slept =
        (case last_request_time g of
           None \<Rightarrow> None
         | Some l \<Rightarrow>
             (let elapsed = current_time - l in
              if elapsed < min_request_delay g
              then Some (min_request_delay g - elapsed + jitter)
              else None))
      in (g\<lparr>last_request_time := Some after\<rparr>, slept))"

text \<open>
  A sequence of acquisitions, one after the other: each element of the list holds the two
  clock readings and the jitter of one call. The result lists the recorded times.
\<close>

fun acquire_all :: "rate_gate \<Rightarrow> (real \<times> real \<times> real) list \<Rightarrow> real list" where
  "acquire_all g [] = []"
| "acquire_all g ((c, j, a) # es) =
     a # acquire_all (fst (wait_for_rate_limit g c j a)) es"

text \<open>
  The environment of such a sequence: every jitter lies in \<open>[0, 0.05]\<close> and every sleep
  lasts at least as long as asked.
\<close>

fun env_ok :: "rate_gate \<Rightarrow> (real \<times> real \<times> real) list \<Rightarrow> bool" where
  "env_ok g [] = True"
| "env_ok g ((c, j, a) # es) =
     (0 \<le> j \<and> j \<le> 0.05 \<and> clock_ok c (snd (wait_for_rate_limit g c j a)) a
      \<and> env_ok (fst (wait_for_rate_limit g c j a)) es)"

section \<open>The per-destination message cadence gate\<close>

text \<open>
  \<^verbatim>\<open>_check_message_rate_limit\<close> (telegram_client.py, lines 206-216; telegram_core.py,
  lines 322-333; the same body). A chat id is an int or a str; the dictionary of last
  message times is a map.
\<close>

datatype chat_id = IntId int | StrId string

type_synonym chat_times = "chat_id \<Rightarrow> real option"

definition check_message_rate_limit ::
  "chat_times \<Rightarrow> chat_id \<Rightarrow> real \<Rightarrow> real \<Rightarrow> real \<Rightarrow> chat_times \<times> real option" where
  "check_message_rate_limit m chat current_time jitter after =
     (let slept =
        (case m chat of
           None \<Rightarrow> None
         | Some l \<Rightarrow>
             (let elapsed = current_time - l in
              if elapsed < 1.0 then Some (1.0 - elapsed + jitter) else None))
      in (m(chat \<mapsto> after), slept))"

section \<open>The edit quota\<close>

record edit_quota =
  last_edit_time :: "real option"
  edit_count_last_hour :: int
  edit_count_reset_time :: "real option"

datatype quota_error =
    QuotaExceeded real  \<comment> \<open>RateLimitError with its \<open>retry_after\<close>\<close>
  | QuotaTypeError      \<comment> \<open>\<open>None - float\<close>; no reset time after the reset step\<close>

text \<open>
  The first statement of both \<^verbatim>\<open>_check_edit_rate_limit\<close>: the hourly reset. The
  source stores the end of the window, \<^verbatim>\<open>current_time + 3600\<close>, in
  \<^verbatim>\<open>_edit_count_reset_time\<close>: the window starts 3600 seconds before that.
\<close>

definition reset_edit_window :: "edit_quota \<Rightarrow> real \<Rightarrow> edit_quota" where
  "reset_edit_window q current_time =
     (if (case edit_count_reset_time q of None \<Rightarrow> True | Some r \<Rightarrow> current_time \<ge> r)
      then q\<lparr>edit_count_last_hour := 0, edit_count_reset_time := Some (current_time + 3600)\<rparr>
      else q)"

text \<open>The 5 edits per second check, shared by both variants.\<close>

definition edit_spacing_sleep :: "edit_quota \<Rightarrow> real \<Rightarrow> real \<Rightarrow> real option" where
  "edit_spacing_sleep q current_time jitter =
     (case last_edit_time q of
        None \<Rightarrow> None
      | Some l \<Rightarrow>
          (let elapsed = current_time - l in
           if elapsed < 0.2 then Some (0.2 - elapsed + jitter) else None))"

text \<open>
  \<^verbatim>\<open>TelegramClient._check_edit_rate_limit\<close> (telegram_client.py, lines 178-204). The
  object is mutated in place, so the state is part of the result also when the method
  raises. \<open>jitter\<close> is \<^verbatim>\<open>random.uniform(0, 0.02)\<close>.
\<close>

definition check_edit_rate_limit ::
  "edit_quota \<Rightarrow> real \<Rightarrow> real \<Rightarrow> real \<Rightarrow> edit_quota \<times> (quota_error + real option)" where
  "check_edit_rate_limit q current_time jitter after =
     (let q1 = reset_edit_window q current_time;
          proceed =
            (q1\<lparr>last_edit_time := Some after,
                edit_count_last_hour := edit_count_last_hour q1 + 1\<rparr>,
             Inr (edit_spacing_sleep q1 current_time jitter))
      in if edit_count_last_hour q1 \<ge> 120
         then (case edit_count_reset_time q1 of
                 None \<Rightarrow> (q1, Inl QuotaTypeError)
               | Some r \<Rightarrow>
                   (let wait_time = r - current_time in
                    if wait_time > 0 then (q1, Inl (QuotaExceeded wait_time)) else proceed))
         else proceed)"


text \<open>
  A sequence of cadence-gate acquisitions, for any mix of destinations: each element holds
  the destination, the two clock readings and the jitter (\<^verbatim>\<open>random.uniform(0, 0.1)\<close>)
  of one call. \<open>msg_env_ok\<close> says that every jitter lies in \<open>[0, 0.1]\<close> and every
  sleep lasts at least as long as asked; \<open>recorded_for chat\<close> lists the times recorded
  for one destination.
\<close>

fun msg_env_ok :: "chat_times \<Rightarrow> (chat_id \<times> real \<times> real \<times> real) list \<Rightarrow> bool" where
  "msg_env_ok m [] = True"
| "msg_env_ok m ((ch, c, j, a) # es) =
     (0 \<le> j \<and> j \<le> 0.1 \<and> clock_ok c (snd (check_message_rate_limit m ch c j a)) a
      \<and> msg_env_ok (fst (check_message_rate_limit m ch c j a)) es)"

fun recorded_for :: "chat_id \<Rightarrow> (chat_id \<times> real \<times> real \<times> real) list \<Rightarrow> real list" where
  "recorded_for chat [] = []"
| "recorded_for chat ((ch, c, j, a) # es) =
     (if ch = chat then a # recorded_for chat es else recorded_for chat es)"







section \<open>JSON values and the Python built-ins the client applies to them\<close>

text \<open>
  A decoded JSON document, as \<^verbatim>\<open>response.json()\<close> returns it. A dictionary is an
  association list read with \<^const>\<open>map_of\<close>. Python's int is unbounded and is kept
  apart from float, since \<^verbatim>\<open>float\<close> of an int can raise; Python's bool is a subclass of
  int and is kept apart too. A float is a finite real: rounding is outside the model, and
  so are the values NaN and Infinity, which \<^verbatim>\<open>json\<close> accepts.
\<close>

datatype json =
    JNull
  | JBool bool
  | JInt int
  | JFloat real
  | JStr string
  | JArr "json list"
  | JObj "(string \<times> json) list"

datatype py_error = AttributeError | ValueError | TypeError | OverflowError

text \<open>
  Three built-ins are not code of this repository and are parameters of the model:
  \<^verbatim>\<open>float\<close> on a str (\<open>None\<close> is ValueError), \<^verbatim>\<open>str\<close> on a value that is not
  a str, and \<^verbatim>\<open>json.loads\<close> (\<open>None\<close> is JSONDecodeError).
\<close>

record builtins =
  float_of_str :: "string \<Rightarrow> real option"
  repr_of :: "json \<Rightarrow> string"
  json_loads :: "string \<Rightarrow> json option"

text \<open>\<^verbatim>\<open>d.get(k, default)\<close> and \<^verbatim>\<open>d.get(k)\<close>, whose default is None.\<close>

definition dict_get :: "(string \<times> json) list \<Rightarrow> string \<Rightarrow> json \<Rightarrow> json" where
  "dict_get d k dflt = (case map_of d k of None \<Rightarrow> dflt | Some v \<Rightarrow> v)"

text \<open>The truth value of a value, as \<^verbatim>\<open>if x:\<close> and \<^verbatim>\<open>x or y\<close> test it.\<close>

fun truthy :: "json \<Rightarrow> bool" where
  "truthy JNull = False"
| "truthy (JBool b) = b"
| "truthy (JInt i) = (i \<noteq> 0)"
| "truthy (JFloat r) = (r \<noteq> 0)"
| "truthy (JStr s) = (s \<noteq> [])"
| "truthy (JArr xs) = (xs \<noteq> [])"
| "truthy (JObj kv) = (kv \<noteq> [])"

definition py_or :: "json \<Rightarrow> json \<Rightarrow> json" where
  "py_or a b = (if truthy a then a else b)"

text \<open>
  The conversion of an int to a float, as \<^verbatim>\<open>float(i)\<close> and the arithmetic of an int
  with a float make it: an int that rounds beyond the largest double,
  \<open>2^1024 - 2^971\<close>, raises OverflowError.
\<close>

definition int_to_float :: "int \<Rightarrow> py_error + real" where
  "int_to_float i =
     (if \<bar>i\<bar> < 2 ^ 1024 - 2 ^ 970 then Inr (real_of_int i) else Inl OverflowError)"

text \<open>\<^verbatim>\<open>float(x)\<close>.\<close>

fun py_float :: "builtins \<Rightarrow> json \<Rightarrow> py_error + real" where
  "py_float B JNull = Inl TypeError"
| "py_float B (JBool b) = Inr (if b then 1 else 0)"
| "py_float B (JInt i) = int_to_float i"
| "py_float B (JFloat r) = Inr r"
| "py_float B (JStr s) =
     (case float_of_str B s of None \<Rightarrow> Inl ValueError | Some r \<Rightarrow> Inr r)"
| "py_float B (JArr xs) = Inl TypeError"
| "py_float B (JObj kv) = Inl TypeError"

text \<open>\<^verbatim>\<open>str(x)\<close>.\<close>

definition py_str :: "builtins \<Rightarrow> json \<Rightarrow> string" where
  "py_str B v = (case v of JStr s \<Rightarrow> s | _ \<Rightarrow> repr_of B v)"

text \<open>
  \<^verbatim>\<open>time.sleep(s)\<close> raises ValueError on a negative duration and OverflowError on one
  that does not fit the 64-bit count of nanoseconds CPython converts it to; otherwise it
  sleeps.
\<close>

definition py_sleep :: "real \<Rightarrow> py_error option" where
  "py_sleep s =
     (if s < 0 then Some ValueError
      else if 2 ^ 63 \<le> s * 10 ^ 9 then Some OverflowError
      else None)"

text \<open>
  Text. A \<^typ>\<open>string\<close> is a list of 8-bit characters, and the functions below are the
  Python ones on ASCII text: \<^verbatim>\<open>s.upper()\<close> raises the letters a to z,
  \<^verbatim>\<open>"FLOOD_WAIT" in s\<close> is containment, and
  \<^verbatim>\<open>re.search(r'FLOOD_WAIT[_\s]+(\d+)', s)\<close> takes \<^verbatim>\<open>\d\<close> as 0 to 9 and
  \<^verbatim>\<open>\s\<close> as the white space of \<^verbatim>\<open>str.isspace\<close> below code point 256. Outside
  ASCII, Python's \<^verbatim>\<open>upper\<close> can turn a character into ASCII letters (a ligature into
  FL) and \<^verbatim>\<open>\d\<close> matches other decimal digits: such text is outside the model, and
  \<open>ascii\<close> is the hypothesis that says so.

  The two character classes of the pattern are disjoint, so at a given start the pattern
  matches in one way only: the whole run of separators, then the whole run of digits.
  \<^verbatim>\<open>re.search\<close> returns the match with the leftmost start.
\<close>

definition ascii :: "string \<Rightarrow> bool" where
  "ascii s = list_all (\<lambda>c. (of_char c :: nat) < 128) s"

definition to_upper :: "char \<Rightarrow> char" where
  "to_upper c =
     (case map_of (zip ''abcdefghijklmnopqrstuvwxyz'' ''ABCDEFGHIJKLMNOPQRSTUVWXYZ'') c of
        Some C \<Rightarrow> C | None \<Rightarrow> c)"

definition upper :: "string \<Rightarrow> string" where
  "upper s = map to_upper s"

definition is_digit :: "char \<Rightarrow> bool" where
  "is_digit c = (c \<in> set ''0123456789'')"

definition is_space :: "char \<Rightarrow> bool" where
  "is_space c = (c \<in> set [CHR 0x09, CHR 0x0A, CHR 0x0B, CHR 0x0C, CHR 0x0D,
                            CHR 0x1C, CHR 0x1D, CHR 0x1E, CHR 0x1F, CHR 0x20,
                            CHR 0x85, CHR 0xA0])"

definition is_sep :: "char \<Rightarrow> bool" where
  "is_sep c = (c = CHR ''_'' \<or> is_space c)"

definition digits_value :: "string \<Rightarrow> nat" where
  "digits_value ds = foldl (\<lambda>n c. 10 * n + (of_char c - 48)) 0 ds"

fun contains :: "string \<Rightarrow> string \<Rightarrow> bool" where
  "contains p [] = (p = [])"
| "contains p (c # cs) = (take (length p) (c # cs) = p \<or> contains p cs)"

definition match_after_marker :: "string \<Rightarrow> nat option" where
  "match_after_marker s =
     (let seps = takeWhile is_sep s;
          ds = takeWhile is_digit (dropWhile is_sep s)
      in if seps \<noteq> [] \<and> ds \<noteq> [] then Some (digits_value ds) else None)"

fun flood_search :: "string \<Rightarrow> nat option" where
  "flood_search [] = None"
| "flood_search (c # cs) =
     (if take 10 (c # cs) = ''FLOOD_WAIT''
      then (case match_after_marker (drop 10 (c # cs)) of
              Some n \<Rightarrow> Some n
            | None \<Rightarrow> flood_search cs)
      else flood_search cs)"




text \<open>
  \<^verbatim>\<open>random.uniform(a, b)\<close> is \<^verbatim>\<open>a + (b - a) * random()\<close>; \<open>u\<close> is the value of
  \<^verbatim>\<open>random()\<close>, a number of \<open>[0, 1)\<close>.
\<close>

definition uniform :: "real \<Rightarrow> real \<Rightarrow> real \<Rightarrow> real" where
  "uniform a b u = a + (b - a) * u"

section \<open>Wait computation of the client\<close>

text \<open>
  The structured part of \<^verbatim>\<open>TelegramClient._extract_flood_wait_time\<close>
  (telegram_client.py, lines 119-126): the value \<^verbatim>\<open>wait_time\<close> holds before the
  error text is searched.
\<close>

definition structured_wait :: "builtins \<Rightarrow> (string \<times> json) list \<Rightarrow> py_error + real" where
  "structured_wait B result =
     (let wait_time = 1.0;
          parameters = dict_get result ''parameters'' (JObj [])
      in case parameters of
           JObj ps \<Rightarrow>
             (let seconds = py_or (dict_get ps ''seconds'' JNull)
                                  (dict_get ps ''retry_after'' JNull)
              in if truthy seconds then py_float B seconds else Inr wait_time)
         | _ \<Rightarrow> Inr wait_time)"

text \<open>
  \<^verbatim>\<open>TelegramClient._extract_flood_wait_time\<close> (telegram_client.py, lines 108-136).
\<close>

definition extract_flood_wait_time ::
  "builtins \<Rightarrow> json \<Rightarrow> (string \<times> json) list \<Rightarrow> py_error + real" where
  "extract_flood_wait_time B error_msg result =
     (case structured_wait B result of
        Inl e \<Rightarrow> Inl e
      | Inr w1 \<Rightarrow>
          (let wait_time =
             (case flood_search (upper (py_str B error_msg)) of
                Some n \<Rightarrow> real n
              | None \<Rightarrow> w1)
           in Inr (min wait_time 3600.0)))"

text \<open>
  What the client sees of an \<^verbatim>\<open>httpx.Response\<close>: the status code, the decoded body
  (\<open>None\<close> when \<^verbatim>\<open>response.json()\<close> raises ValueError), the Retry-After header
  when present, and whether \<^verbatim>\<open>raise_for_status()\<close> raises (httpx decides that from
  the status code).
\<close>

record response =
  status_code :: int
  body :: "json option"
  retry_after_header :: "string option"
  status_error :: bool

text \<open>
  The body part of \<^verbatim>\<open>TelegramClient._handle_rate_limit_error\<close> (telegram_client.py,
  lines 145-158). The default of the outer \<^verbatim>\<open>get\<close> is an argument, so
  \<^verbatim>\<open>error_data.get("parameters", {}).get("retry_after", 1.0)\<close> is evaluated first,
  whether the key \<^verbatim>\<open>retry_after\<close> is present or not; on a \<^verbatim>\<open>parameters\<close> member
  that is not a dict it raises AttributeError. \<^verbatim>\<open>float(retry_after)\<close> raises
  OverflowError on an int beyond the doubles. The \<^verbatim>\<open>except\<close> clause (ValueError,
  KeyError, TypeError) catches neither.
\<close>

definition body_retry_after :: "json option \<Rightarrow> py_error + real" where
  "body_retry_after b =
     (case b of
        None \<Rightarrow> Inr 1.0
      | Some (JObj error_data) \<Rightarrow>
          (case dict_get error_data ''parameters'' (JObj []) of
             JObj ps \<Rightarrow>
               (case dict_get error_data ''retry_after'' (dict_get ps ''retry_after'' (JFloat 1.0)) of
                  JInt i \<Rightarrow> int_to_float i
                | JFloat r \<Rightarrow> Inr r
                | JBool t \<Rightarrow> Inr (if t then 1 else 0)
                | _ \<Rightarrow> Inr 1.0)
           | _ \<Rightarrow> Inl AttributeError)
      | Some _ \<Rightarrow> Inr 1.0)"

text \<open>The header part (lines 160-165).\<close>

definition header_override :: "builtins \<Rightarrow> string option \<Rightarrow> real \<Rightarrow> real" where
  "header_override B h retry_after =
     (case h of
        None \<Rightarrow> retry_after
      | Some v \<Rightarrow> (case float_of_str B v of None \<Rightarrow> retry_after | Some r \<Rightarrow> r))"

text \<open>
  The backoff part (lines 167-176). \<^verbatim>\<open>2 ** attempt\<close> is an int, converted to a float
  by the multiplication.
\<close>

definition backoff_wait :: "real \<Rightarrow> nat \<Rightarrow> real \<Rightarrow> py_error + real" where
  "backoff_wait retry_after attempt u =
     (case int_to_float (2 ^ attempt) of
        Inl e \<Rightarrow> Inl e
      | Inr p \<Rightarrow>
          (let backoff_time = retry_after * p;
               jitter = uniform 0 (backoff_time * 0.25) u;
               total_wait = backoff_time + jitter
           in Inr (min total_wait 60.0)))"

text \<open>
  \<^verbatim>\<open>TelegramClient._handle_rate_limit_error\<close> (telegram_client.py, lines 138-176).
\<close>

definition handle_rate_limit_error ::
  "builtins \<Rightarrow> response \<Rightarrow> nat \<Rightarrow> real \<Rightarrow> py_error + real" where
  "handle_rate_limit_error B r attempt u =
     (case body_retry_after (body r) of
        Inl e \<Rightarrow> Inl e
      | Inr retry_after \<Rightarrow>
          backoff_wait (header_override B (retry_after_header r) retry_after) attempt u)"

section \<open>The retry loop of the client\<close>

datatype client_error =
    RateLimitError real         \<comment> \<open>carries \<open>retry_after\<close>\<close>
  | FloodWaitError json real    \<comment> \<open>carries the error message and \<open>wait_time\<close>\<close>
  | TelegramClientError json    \<comment> \<open>carries the error message\<close>
  | HTTPStatusError int
  | RequestError
  | Builtin py_error

datatype outcome =
    Responds response
  | TransportFails    \<comment> \<open>\<^verbatim>\<open>httpx.RequestError\<close>, \<^verbatim>\<open>httpx.TimeoutException\<close>\<close>

datatype step =
    Return json
  | Raise client_error
  | Retry real "client_error option"
      \<comment> \<open>sleep, then \<^verbatim>\<open>continue\<close>; the second argument is a new \<^verbatim>\<open>last_exception\<close>\<close>

text \<open>The value returned on success (lines 303-309).\<close>

definition success_value :: "builtins \<Rightarrow> (string \<times> json) list \<Rightarrow> json" where
  "success_value B result =
     (let data = dict_get result ''data'' JNull
      in if truthy data
         then (case data of
                 JStr s \<Rightarrow> (case json_loads B s of Some v \<Rightarrow> v | None \<Rightarrow> data)
               | _ \<Rightarrow> data)
         else data)"

text \<open>
  \<^verbatim>\<open>time.sleep(wait_time)\<close> followed by \<^verbatim>\<open>continue\<close>: an exception of the sleep
  is caught by no \<^verbatim>\<open>except\<close> clause of the loop.
\<close>

definition sleep_and_continue :: "real \<Rightarrow> client_error option \<Rightarrow> step" where
  "sleep_and_continue wait_time e =
     (case py_sleep wait_time of
        Some err \<Rightarrow> Raise (Builtin err)
      | None \<Rightarrow> Retry wait_time e)"

text \<open>
  The backoff of the two handlers (lines 319-323 and 327-330):
  \<^verbatim>\<open>wait_time = (2 ** attempt) + random.uniform(0, 1)\<close>, the int converted to a float by
  the addition, then the sleep.
\<close>

definition plain_backoff :: "nat \<Rightarrow> real \<Rightarrow> client_error \<Rightarrow> step" where
  "plain_backoff attempt u e =
     (case int_to_float (2 ^ attempt) of
        Inl err \<Rightarrow> Raise (Builtin err)
      | Inr p \<Rightarrow> sleep_and_continue (p + uniform 0 1 u) (Some e))"

text \<open>
  One iteration of the \<^verbatim>\<open>for attempt in range(self.max_retries + 1)\<close> loop of
  \<^verbatim>\<open>TelegramClient._request\<close> (telegram_client.py, lines 255-331), given what the HTTP
  call of this attempt yields and the one random draw the iteration may make. An exception
  that no \<^verbatim>\<open>except\<close> clause of the loop catches leaves the method. The test for status
  429 in the HTTPStatusError handler cannot succeed: a 429 response has left the iteration
  before \<^verbatim>\<open>raise_for_status()\<close> is reached.
\<close>

definition attempt_step :: "builtins \<Rightarrow> int \<Rightarrow> nat \<Rightarrow> outcome \<Rightarrow> real \<Rightarrow> step" where
  "attempt_step B max_retries attempt out u =
     (case out of
        TransportFails \<Rightarrow>
          (if int attempt < max_retries
           then plain_backoff attempt u RequestError
           else Raise RequestError)
      | Responds r \<Rightarrow>
          (if status_code r = 429
           then (case handle_rate_limit_error B r attempt u of
                   Inl e \<Rightarrow> Raise (Builtin e)
                 | Inr wait_time \<Rightarrow>
                     (if int attempt < max_retries
                      then sleep_and_continue wait_time None
                      else Raise (RateLimitError wait_time)))
           else if status_error r
           then (if int attempt < max_retries
                 then plain_backoff attempt u (HTTPStatusError (status_code r))
                 else Raise (HTTPStatusError (status_code r)))
           else (case body r of
                   None \<Rightarrow> Raise (Builtin ValueError)
                 | Some (JObj result) \<Rightarrow>
                     (if \<not> truthy (dict_get result ''success'' JNull)
                      then (let error_msg = dict_get result ''error'' (JStr ''Unknown error'');
                                error_code = dict_get result ''error_code'' (JStr '''')
                            in if contains ''FLOOD_WAIT'' (upper (py_str B error_code))
                                  \<or> contains ''FLOOD_WAIT'' (upper (py_str B error_msg))
                               then (case extract_flood_wait_time B error_msg result of
                                       Inl e \<Rightarrow> Raise (Builtin e)
                                     | Inr wait_time \<Rightarrow>
                                         (if int attempt < max_retries
                                          then sleep_and_continue
                                                 (wait_time + uniform 0 1 u) None
                                          else Raise (FloodWaitError error_msg wait_time)))
                               else Raise (TelegramClientError error_msg))
                      else Return (success_value B result))
                 | Some _ \<Rightarrow> Raise (Builtin AttributeError))))"

text \<open>
  The loop and the two statements after it (lines 253-336). \<open>calls a\<close> is what the HTTP
  call of attempt \<open>a\<close> yields, \<open>draws a\<close> the random draw of that iteration. The trace
  lists the underlying calls and the backoff sleeps in the order they happen; the sleeps
  of the gates, which run once before the loop (lines 240-249), are not part of it.
\<close>

datatype event = Call nat | Sleep real

fun attempts ::
  "builtins \<Rightarrow> int \<Rightarrow> (nat \<Rightarrow> outcome) \<Rightarrow> (nat \<Rightarrow> real) \<Rightarrow> client_error option
     \<Rightarrow> nat \<Rightarrow> nat \<Rightarrow> event list \<times> (client_error + json)" where
  "attempts B max_retries calls draws last_exception 0 attempt =
     ([], (case last_exception of
             Some e \<Rightarrow> Inl e
           | None \<Rightarrow> Inl (TelegramClientError (JStr ''Request failed after all retries''))))"
| "attempts B max_retries calls draws last_exception (Suc n) attempt =
     (case attempt_step B max_retries attempt (calls attempt) (draws attempt) of
        Return v \<Rightarrow> ([Call attempt], Inr v)
      | Raise e \<Rightarrow> ([Call attempt], Inl e)
      | Retry s e \<Rightarrow>
          (let (tr, res) = attempts B max_retries calls draws
                  (case e of None \<Rightarrow> last_exception | Some x \<Rightarrow> Some x) n (Suc attempt)
           in (Call attempt # Sleep s # tr, res)))"

definition request_loop ::
  "builtins \<Rightarrow> int \<Rightarrow> (nat \<Rightarrow> outcome) \<Rightarrow> (nat \<Rightarrow> real)
     \<Rightarrow> event list \<times> (client_error + json)" where
  "request_loop B max_retries calls draws =
     attempts B max_retries calls draws None (nat (max_retries + 1)) 0"

definition count_calls :: "event list \<Rightarrow> nat" where
  "count_calls tr = length (filter (\<lambda>e. case e of Call _ \<Rightarrow> True | Sleep _ \<Rightarrow> False) tr)"

definition count_sleeps :: "event list \<Rightarrow> nat" where
  "count_sleeps tr = length (filter (\<lambda>e. case e of Call _ \<Rightarrow> False | Sleep _ \<Rightarrow> True) tr)"

text \<open>
  An iteration backs off when it ends in a sleep that sets no \<^verbatim>\<open>last_exception\<close> (the
  429 branch and the FLOOD_WAIT branch) or in one of the two exhaustion errors.
\<close>

fun is_exhaustion :: "client_error \<Rightarrow> bool" where
  "is_exhaustion (RateLimitError w) = True"
| "is_exhaustion (FloodWaitError m w) = True"
| "is_exhaustion _ = False"

fun is_backoff :: "step \<Rightarrow> bool" where
  "is_backoff (Retry w None) = True"
| "is_backoff (Raise e) = is_exhaustion e"
| "is_backoff _ = False"

text \<open>An environment in which every attempt yields the same.\<close>

definition every_attempt :: "'a \<Rightarrow> nat \<Rightarrow> 'a" where
  "every_attempt x a = x"

text \<open>
  Built-ins for the concrete inputs below, none of which reaches a built-in: the messages
  are strs, the numbers are numbers, there is no Retry-After header and no data.
\<close>

definition unused_builtins :: builtins where
  "unused_builtins =
     \<lparr>float_of_str = (\<lambda>s. None), repr_of = (\<lambda>v. []), json_loads = (\<lambda>s. None)\<rparr>"


section \<open>Operations of the core\<close>

text \<open>
  The message and media operations of \<^verbatim>\<open>TelegramCore\<close> (telegram_core.py), as the
  sequence of gate acquisitions, provider calls (the awaited methods of the Telethon
  client) and flood-wait sleeps they make. \<open>env k\<close> is what the \<open>k\<close>-th provider
  call of the operation yields: a value, Telethon's FloodWaitError with its \<open>seconds\<close>,
  or any other exception. \<open>valid\<close> says that \<^verbatim>\<open>validate_ids\<close> returned no error
  message. The texts the operations return are reduced to their kind.
\<close>

datatype provider_call =
  GetEntity | SendMessage | EditMessage | DeleteMessages | ForwardMessages | GetMessages
  | DownloadMedia


datatype core_event =
    GlobalGate
  | MessageGate
  | EditGate
  | Provider provider_call
  | FloodSleep real



definition count_provider :: "core_event list \<Rightarrow> nat" where
  "count_provider tr =
     length (filter (\<lambda>e. case e of Provider c \<Rightarrow> True | _ \<Rightarrow> False) tr)"

definition count_global :: "core_event list \<Rightarrow> nat" where
  "count_global tr =
     length (filter (\<lambda>e. case e of GlobalGate \<Rightarrow> True | _ \<Rightarrow> False) tr)"










section \<open>Concurrent acquirers of the core's global gate\<close>

text \<open>
  The core is one object shared by the coroutines of the event loop (api.py serves every
  request from the singleton \<^verbatim>\<open>telegram\<close>). A coroutine runs alone until it awaits:
  in \<^verbatim>\<open>TelegramCore._wait_for_rate_limit\<close> the only await is
  \<^verbatim>\<open>await asyncio.sleep(sleep_time)\<close> (line 287), between the read of
  \<^verbatim>\<open>_last_request_time\<close> and the write of the new one; the method holds no lock.

  A task is a call of the method: not started, suspended in its sleep (with the timestamp
  it read and the time before which it does not wake), or returned (with the timestamp it
  read and the one it recorded). \<open>Start\<close> runs a task from its first statement to the
  sleep, or to the end when it does not sleep; \<open>Wake\<close> runs it from the sleep to the
  end. The clock never runs backwards and no task wakes early.
\<close>

datatype task =
    Ready
  | Sleeping "real option" real
  | Done "real option" real

record sched =
  gate :: rate_gate
  clock :: real
  tasks :: "task list"

datatype action =
    Start nat real real real
  | Wake nat real

fun observed :: "task \<Rightarrow> real option option" where
  "observed Ready = None"
| "observed (Sleeping seen w) = Some seen"
| "observed (Done seen t) = Some seen"

fun sched_step :: "action \<Rightarrow> sched \<Rightarrow> sched option" where
  "sched_step (Start i current_time jitter after) s =
     (if i < length (tasks s) \<and> clock s \<le> current_time
      then (case tasks s ! i of
              Ready \<Rightarrow>
                (case snd (wait_for_rate_limit (gate s) current_time jitter after) of
                   None \<Rightarrow>
                     (if current_time \<le> after
                      then Some \<lparr>gate = fst (wait_for_rate_limit (gate s) current_time jitter after),
                                 clock = after,
                                 tasks = (tasks s)[i := Done (last_request_time (gate s)) after]\<rparr>
                      else None)
                 | Some sleep_time \<Rightarrow>
                     Some \<lparr>gate = gate s, clock = current_time,
                           tasks = (tasks s)[i := Sleeping (last_request_time (gate s))
                                                    (current_time + sleep_time)]\<rparr>)
            | _ \<Rightarrow> None)
      else None)"
| "sched_step (Wake i after) s =
     (if i < length (tasks s) \<and> clock s \<le> after
      then (case tasks s ! i of
              Sleeping seen wake \<Rightarrow>
                (if wake \<le> after
                 then Some \<lparr>gate = (gate s)\<lparr>last_request_time := Some after\<rparr>, clock = after,
                            tasks = (tasks s)[i := Done seen after]\<rparr>
                 else None)
            | _ \<Rightarrow> None)
      else None)"

fun run_sched :: "action list \<Rightarrow> sched \<Rightarrow> sched option" where
  "run_sched [] s = Some s"
| "run_sched (a # as) s = (case sched_step a s of None \<Rightarrow> None | Some s' \<Rightarrow> run_sched as s')"

section \<open>Properties of the gates\<close>

subsection \<open>Global rate gate\<close>

lemma wait_keeps_delay:
  "min_request_delay (fst (wait_for_rate_limit g c j a)) = min_request_delay g"
  by (simp add: wait_for_rate_limit_def Let_def)

lemma wait_records_after:
  "last_request_time (fst (wait_for_rate_limit g c j a)) = Some a"
  by (simp add: wait_for_rate_limit_def Let_def)

lemma acquire_all_first_gap:
  "env_ok g es \<Longrightarrow> last_request_time g = Some l \<Longrightarrow> es \<noteq> [] \<Longrightarrow>
     min_request_delay g \<le> hd (acquire_all g es) - l"
  by (cases es) (auto simp: wait_for_rate_limit_def clock_ok_def Let_def split: if_splits)

lemma acquire_all_gaps:
  "env_ok g es \<Longrightarrow> Suc i < length (acquire_all g es) \<Longrightarrow>
     min_request_delay g \<le> acquire_all g es ! Suc i - acquire_all g es ! i"
proof (induction es arbitrary: g i)
  case Nil
  then show ?case by simp
next
  case (Cons e es)
  obtain c j a where e: "e = (c, j, a)" by (cases e)
  let ?g' = "fst (wait_for_rate_limit g c j a)"
  have ok': "env_ok ?g' es" using Cons.prems(1) e by simp
  show ?case
  proof (cases i)
    case 0
    have ne: "es \<noteq> []" using Cons.prems(2) e by auto
    then have "min_request_delay ?g' \<le> hd (acquire_all ?g' es) - a"
      using acquire_all_first_gap [OF ok' wait_records_after] by simp
    moreover have "acquire_all ?g' es \<noteq> []" using ne by (cases es) auto
    ultimately show ?thesis using 0 e by (simp add: wait_keeps_delay hd_conv_nth)
  next
    case (Suc k)
    then have "Suc k < length (acquire_all ?g' es)" using Cons.prems(2) e by simp
    from Cons.IH [OF ok' this] show ?thesis using Suc e by (simp add: wait_keeps_delay)
  qed
qed

lemma jitter_only_adds:
  "0 \<le> j \<Longrightarrow> last_request_time g = Some l \<Longrightarrow>
   snd (wait_for_rate_limit g c j a) = Some s \<Longrightarrow> min_request_delay g - (c - l) \<le> s"
  by (auto simp: wait_for_rate_limit_def Let_def split: if_splits)

text \<open>
  Claim C6. For a sequence of acquisitions of the global rate gate made one after the
  other, with minimum interval \<open>d = min_request_delay g\<close>, in an environment where every
  sleep lasts at least as long as asked and every jitter is drawn from \<open>[0, 0.05]\<close>:
  any two consecutively recorded times are at least \<open>d\<close> apart, the first recorded time
  is at least \<open>d\<close> after the time the gate held before the sequence, and the sleep of an
  acquisition is never shorter than the remainder \<open>d - elapsed\<close>: the jitter only adds.
\<close>

theorem global_gate_spacing:
  assumes "env_ok g es"
  shows "(\<forall>i. Suc i < length (acquire_all g es) \<longrightarrow>
            min_request_delay g \<le> acquire_all g es ! Suc i - acquire_all g es ! i)
       \<and> (\<forall>l. last_request_time g = Some l \<and> es \<noteq> [] \<longrightarrow>
            min_request_delay g \<le> hd (acquire_all g es) - l)
       \<and> (\<forall>c j a es' l s. es = (c, j, a) # es' \<and> last_request_time g = Some l
              \<and> snd (wait_for_rate_limit g c j a) = Some s \<longrightarrow>
            min_request_delay g - (c - l) \<le> s)"
proof (intro conjI allI impI)
  fix i assume "Suc i < length (acquire_all g es)"
  with assms show "min_request_delay g \<le> acquire_all g es ! Suc i - acquire_all g es ! i"
    by (rule acquire_all_gaps)
next
  fix l assume "last_request_time g = Some l \<and> es \<noteq> []"
  with assms show "min_request_delay g \<le> hd (acquire_all g es) - l"
    by (simp add: acquire_all_first_gap)
next
  fix c j a es' l s
  assume h: "es = (c, j, a) # es' \<and> last_request_time g = Some l
    \<and> snd (wait_for_rate_limit g c j a) = Some s"
  then have j: "0 \<le> j" using assms by simp
  from h have l: "last_request_time g = Some l"
    and s: "snd (wait_for_rate_limit g c j a) = Some s" by simp_all
  from jitter_only_adds [OF j l s] show "min_request_delay g - (c - l) \<le> s" .
qed

theorem global_gate_spacing_witness:
  "env_ok \<lparr>last_request_time = None, min_request_delay = 0.2\<rparr>
      [(0, 0.01, 0.001), (0.1, 0.01, 0.25), (1, 0, 1)]
   \<and> acquire_all \<lparr>last_request_time = None, min_request_delay = 0.2\<rparr>
      [(0, 0.01, 0.001), (0.1, 0.01, 0.25), (1, 0, 1)] = [0.001, 0.25, 1]
   \<and> (0.2::real) \<le> 0.25 - 0.001"
proof -
  let ?g = "\<lparr>last_request_time = None, min_request_delay = 0.2\<rparr>"
  let ?es = "[(0, 0.01, 0.001), (0.1, 0.01, 0.25), (1, 0, 1)] :: (real \<times> real \<times> real) list"
  have ok: "env_ok ?g ?es"
    by (simp add: wait_for_rate_limit_def clock_ok_def Let_def)
  have rec: "acquire_all ?g ?es = [0.001, 0.25, 1]"
    by (simp add: wait_for_rate_limit_def Let_def)
  have "Suc 0 < length (acquire_all ?g ?es) \<longrightarrow>
      min_request_delay ?g \<le> acquire_all ?g ?es ! Suc 0 - acquire_all ?g ?es ! 0"
    using global_gate_spacing [OF ok] by blast
  then have "(0.2::real) \<le> 0.25 - 0.001" unfolding rec by simp
  with ok rec show ?thesis by blast
qed

subsection \<open>Per-destination cadence gate\<close>

lemma msg_step_gap:
  "0 \<le> j \<Longrightarrow> clock_ok c (snd (check_message_rate_limit m ch c j a)) a \<Longrightarrow>
   m ch = Some l \<Longrightarrow> 1 \<le> a - l"
  by (auto simp: check_message_rate_limit_def clock_ok_def Let_def split: if_splits)

lemma msg_step_other:
  "other \<noteq> ch \<Longrightarrow> fst (check_message_rate_limit m ch c j a) other = m other"
  by (simp add: check_message_rate_limit_def Let_def)

lemma msg_step_self:
  "fst (check_message_rate_limit m ch c j a) ch = Some a"
  by (simp add: check_message_rate_limit_def Let_def)

lemma recorded_for_first:
  "msg_env_ok m es \<Longrightarrow> m chat = Some l \<Longrightarrow> recorded_for chat es \<noteq> [] \<Longrightarrow>
     1 \<le> hd (recorded_for chat es) - l"
proof (induction es arbitrary: m)
  case Nil
  then show ?case by simp
next
  case (Cons e es)
  obtain ch c j a where e: "e = (ch, c, j, a)" by (cases e)
  show ?case
  proof (cases "ch = chat")
    case True
    then show ?thesis using Cons.prems e msg_step_gap [of j c m ch a l] by simp
  next
    case False
    then have "fst (check_message_rate_limit m ch c j a) chat = Some l"
      using Cons.prems(2) by (simp add: msg_step_other)
    then show ?thesis
      using Cons.IH [of "fst (check_message_rate_limit m ch c j a)"] Cons.prems e False
      by simp
  qed
qed

lemma recorded_for_gaps:
  "msg_env_ok m es \<Longrightarrow> Suc i < length (recorded_for chat es) \<Longrightarrow>
     1 \<le> recorded_for chat es ! Suc i - recorded_for chat es ! i"
proof (induction es arbitrary: m i)
  case Nil
  then show ?case by simp
next
  case (Cons e es)
  obtain ch c j a where e: "e = (ch, c, j, a)" by (cases e)
  let ?m' = "fst (check_message_rate_limit m ch c j a)"
  have ok': "msg_env_ok ?m' es" using Cons.prems(1) e by simp
  show ?case
  proof (cases "ch = chat")
    case False
    then show ?thesis using Cons.IH [OF ok', of i] Cons.prems(2) e by simp
  next
    case True
    show ?thesis
    proof (cases i)
      case 0
      have ne: "recorded_for chat es \<noteq> []" using Cons.prems(2) e True by auto
      have "?m' chat = Some a" using True by (simp add: msg_step_self)
      from recorded_for_first [OF ok' this ne] show ?thesis
        using 0 e True ne by (simp add: hd_conv_nth)
    next
      case (Suc k)
      then have "Suc k < length (recorded_for chat es)" using Cons.prems(2) e True by simp
      from Cons.IH [OF ok' this] show ?thesis using Suc e True by simp
    qed
  qed
qed

lemma msg_sleep_bounds:
  "0 \<le> j \<Longrightarrow> j \<le> 0.1 \<Longrightarrow> m chat = Some l \<Longrightarrow>
   snd (check_message_rate_limit m chat c j a) = Some s \<Longrightarrow>
    1 - (c - l) \<le> s \<and> s \<le> 1 - (c - l) + 0.1"
  by (auto simp: check_message_rate_limit_def Let_def split: if_splits)

text \<open>
  Claim C7. In an environment where every sleep lasts at least as long as asked and every
  jitter is drawn from \<open>[0, 0.1]\<close>, for any sequence of cadence-gate acquisitions over
  any mix of destinations: the times recorded for one fixed destination are pairwise at
  least 1.0 second apart; the sleep of an acquisition is the remainder of the second plus
  at most 100 ms; a destination that is not in the map is not made to sleep; and an
  acquisition for one destination leaves the recorded time of every other destination as
  it was, and its own sleep depends on no entry but its own.
\<close>

theorem message_gate_cadence:
  assumes "msg_env_ok m es"
  shows "(\<forall>chat i. Suc i < length (recorded_for chat es) \<longrightarrow>
            1 \<le> recorded_for chat es ! Suc i - recorded_for chat es ! i)
       \<and> (\<forall>ch c j a es' l s. es = (ch, c, j, a) # es' \<and> m ch = Some l
              \<and> snd (check_message_rate_limit m ch c j a) = Some s \<longrightarrow>
            1 \<le> a - l \<and> 1 - (c - l) \<le> s \<and> s \<le> 1 - (c - l) + 0.1)
       \<and> (\<forall>ch c j a es'. es = (ch, c, j, a) # es' \<and> m ch = None \<longrightarrow>
            snd (check_message_rate_limit m ch c j a) = None)
       \<and> (\<forall>ch c j a es' other. es = (ch, c, j, a) # es' \<and> other \<noteq> ch \<longrightarrow>
            fst (check_message_rate_limit m ch c j a) other = m other)
       \<and> (\<forall>ch c j a es' m'. es = (ch, c, j, a) # es' \<and> m' ch = m ch \<longrightarrow>
            snd (check_message_rate_limit m' ch c j a)
              = snd (check_message_rate_limit m ch c j a)
            \<and> fst (check_message_rate_limit m' ch c j a) ch
              = fst (check_message_rate_limit m ch c j a) ch)"
proof (intro conjI allI impI)
  fix chat i assume "Suc i < length (recorded_for chat es)"
  with assms show "1 \<le> recorded_for chat es ! Suc i - recorded_for chat es ! i"
    by (rule recorded_for_gaps)
next
  fix ch c j a es' l s
  assume h: "es = (ch, c, j, a) # es' \<and> m ch = Some l
    \<and> snd (check_message_rate_limit m ch c j a) = Some s"
  then have j: "0 \<le> j" "j \<le> 0.1"
    and ck: "clock_ok c (snd (check_message_rate_limit m ch c j a)) a"
    using assms by simp_all
  from msg_step_gap [OF j(1) ck] h show "1 \<le> a - l" by simp
  from msg_sleep_bounds [OF j] h show "1 - (c - l) \<le> s" by blast
  from msg_sleep_bounds [OF j] h show "s \<le> 1 - (c - l) + 0.1" by blast
next
  fix ch c j a es'
  assume "es = (ch, c, j, a) # es' \<and> m ch = None"
  then show "snd (check_message_rate_limit m ch c j a) = None"
    by (simp add: check_message_rate_limit_def Let_def)
next
  fix ch c j a es' other
  assume "es = (ch, c, j, a) # es' \<and> other \<noteq> ch"
  then show "fst (check_message_rate_limit m ch c j a) other = m other"
    by (simp add: msg_step_other)
next
  fix ch c j a es' m'
  assume h: "es = (ch, c, j, a) # es' \<and> m' ch = m ch"
  then show "snd (check_message_rate_limit m' ch c j a)
      = snd (check_message_rate_limit m ch c j a)"
    by (simp add: check_message_rate_limit_def Let_def)
  show "fst (check_message_rate_limit m' ch c j a) ch
      = fst (check_message_rate_limit m ch c j a) ch"
    by (simp add: msg_step_self)
qed

theorem message_gate_cadence_witness:
  "msg_env_ok Map.empty
      [(IntId 7, 0, 0.05, 0), (StrId ''@chat'', 0.1, 0, 0.1), (IntId 7, 0.3, 0.05, 1.1)]
   \<and> recorded_for (IntId 7)
      [(IntId 7, 0, 0.05, 0), (StrId ''@chat'', 0.1, 0, 0.1), (IntId 7, 0.3, 0.05, 1.1)]
       = [0, 1.1]
   \<and> (1::real) \<le> 1.1 - 0"
proof -
  let ?es = "[(IntId 7, 0, 0.05, 0), (StrId ''@chat'', 0.1, 0, 0.1),
              (IntId 7, 0.3, 0.05, 1.1)] :: (chat_id \<times> real \<times> real \<times> real) list"
  have ok: "msg_env_ok Map.empty ?es"
    by (simp add: check_message_rate_limit_def clock_ok_def Let_def)
  have rec: "recorded_for (IntId 7) ?es = [0, 1.1]"
    by simp
  have gaps: "\<forall>chat i. Suc i < length (recorded_for chat ?es) \<longrightarrow>
      1 \<le> recorded_for chat ?es ! Suc i - recorded_for chat ?es ! i"
    using message_gate_cadence [OF ok] by (rule conjunct1)
  have "Suc 0 < length (recorded_for (IntId 7) ?es) \<longrightarrow>
      1 \<le> recorded_for (IntId 7) ?es ! Suc 0 - recorded_for (IntId 7) ?es ! 0"
    using gaps [rule_format, of 0 "IntId 7"] by (rule impI)
  then have "(1::real) \<le> 1.1 - 0" unfolding rec by simp
  with ok rec show ?thesis by (intro conjI)
qed

subsection \<open>Edit quota\<close>








text \<open>
  Claim C10. Whenever the client's edit-quota acquisition raises the quota error, the
  three fields of the quota state hold the values they held before the call: a rejected
  acquisition consumes no quota.
\<close>

theorem rejected_edit_keeps_state:
  assumes "check_edit_rate_limit q current_time jitter after = (q', Inl (QuotaExceeded w))"
  shows "last_edit_time q' = last_edit_time q
       \<and> edit_count_last_hour q' = edit_count_last_hour q
       \<and> edit_count_reset_time q' = edit_count_reset_time q"
proof -
  from assms have "q' = q"
    by (auto simp: check_edit_rate_limit_def reset_edit_window_def Let_def
        split: if_splits option.splits)
  then show ?thesis by simp
qed

theorem rejected_edit_keeps_state_witness:
  "check_edit_rate_limit
      \<lparr>last_edit_time = Some 50, edit_count_last_hour = 120,
       edit_count_reset_time = Some 3600\<rparr> 60 0 60
     = (\<lparr>last_edit_time = Some 50, edit_count_last_hour = 120,
         edit_count_reset_time = Some 3600\<rparr>, Inl (QuotaExceeded 3540))
   \<and> edit_count_last_hour
       (fst (check_edit_rate_limit
          \<lparr>last_edit_time = Some 50, edit_count_last_hour = 120,
           edit_count_reset_time = Some 3600\<rparr> 60 0 60)) = 120"
proof -
  let ?q = "\<lparr>last_edit_time = Some 50, edit_count_last_hour = 120,
             edit_count_reset_time = Some 3600\<rparr>"
  have run: "check_edit_rate_limit ?q 60 0 60 = (?q, Inl (QuotaExceeded 3540))"
    by (simp add: check_edit_rate_limit_def reset_edit_window_def Let_def)
  from rejected_edit_keeps_state [OF run]
  have "edit_count_last_hour ?q = 120" by simp
  with run show ?thesis by simp
qed

section \<open>Properties of the client's retry logic\<close>

subsection \<open>Wait directive\<close>

lemmas text_eval = upper_def to_upper_def match_after_marker_def is_space_def is_digit_def
  is_sep_def digits_value_def py_str_def















subsection \<open>Throttle backoff\<close>

text \<open>
  Claim C2. The claim reads the base from the body, defaulting to 1.0 where the field is
  absent or not a number. On the body \<open>{"retry_after": 5, "parameters": null}\<close> the
  method computes no wait: it raises AttributeError, since the \<open>parameters\<close> member is
  read with \<^verbatim>\<open>.get\<close> before the \<open>retry_after\<close> member is looked at.
\<close>

theorem handle_rate_limit_error_null_parameters:
  "handle_rate_limit_error unused_builtins
     \<lparr>status_code = 429,
      body = Some (JObj [(''retry_after'', JInt 5), (''parameters'', JNull)]),
      retry_after_header = None, status_error = True\<rparr> 0 0 = Inl AttributeError"
  by (simp add: handle_rate_limit_error_def body_retry_after_def dict_get_def)

text \<open>
  Where the body part returns a base and the attempt number is below 1024, the wait is as
  the claim says: the header overrides the base when it parses, the wait is the backoff
  plus a jitter of at most a quarter of it, capped at 60; with 2 from the header and
  attempt 1 it lies in \<open>[4, 5]\<close>.
\<close>

lemma pow2_to_float: "attempt < 1024 \<Longrightarrow> int_to_float (2 ^ attempt) = Inr (2 ^ attempt)"
proof -
  assume "attempt < 1024"
  then have "attempt \<le> 1023" by simp
  then have "(2::int) ^ attempt \<le> 2 ^ 1023" by (rule power_increasing) simp
  moreover have "(2::int) ^ 1023 < 2 ^ 1024 - 2 ^ 970" by simp
  ultimately have "\<bar>(2::int) ^ attempt\<bar> < 2 ^ 1024 - 2 ^ 970" by simp
  then show ?thesis by (simp add: int_to_float_def)
qed

lemma throttle_wait_formula:
  assumes "body_retry_after (body r) = Inr base" and "0 \<le> u" and "u \<le> 1"
    and "attempt < 1024"
    and "retry_after = header_override B (retry_after_header r) base"
  shows "handle_rate_limit_error B r attempt u
           = Inr (min (retry_after * 2 ^ attempt + u * (0.25 * (retry_after * 2 ^ attempt))) 60)"
    and "0 \<le> retry_after \<Longrightarrow>
           0 \<le> u * (0.25 * (retry_after * 2 ^ attempt))
           \<and> u * (0.25 * (retry_after * 2 ^ attempt)) \<le> 0.25 * (retry_after * 2 ^ attempt)"
  using assms
  by (simp_all add: handle_rate_limit_error_def backoff_wait_def uniform_def Let_def
      pow2_to_float algebra_simps mult_left_le_one_le)

lemma throttle_wait_header_two:
  assumes "0 \<le> u" and "u \<le> 1" and "a < 1024"
  shows "(\<exists>w. backoff_wait 2 1 u = Inr w \<and> 4 \<le> w \<and> w \<le> 5)
       \<and> (\<exists>w. backoff_wait 2 a u = Inr w \<and> 0 \<le> w \<and> w \<le> 60)"
  using assms pow2_to_float [of 1] pow2_to_float [of a]
  by (simp add: backoff_wait_def uniform_def Let_def)

subsection \<open>Retry loop\<close>

text \<open>
  Claim C3. With \<open>max_retries = 3\<close> and every attempt answered by status 429 with the
  body \<open>{"retry_after": 5, "parameters": null}\<close>, the loop makes one call and leaves
  with AttributeError: not four calls, and no RateLimitError.
\<close>

theorem request_loop_null_parameters:
  "request_loop unused_builtins 3
     (every_attempt (Responds \<lparr>status_code = 429,
         body = Some (JObj [(''retry_after'', JInt 5), (''parameters'', JNull)]),
         retry_after_header = None, status_error = True\<rparr>))
     (every_attempt 0)
   = ([Call 0], Inl (Builtin AttributeError))"
  by (simp add: request_loop_def every_attempt_def attempt_step_def handle_rate_limit_error_def
      body_retry_after_def dict_get_def numeral_eq_Suc)

text \<open>
  Where every iteration backs off, the loop does what the claim says: \<open>max_retries + 1\<close>
  calls, \<open>max_retries\<close> sleeps, then the exhaustion error of the last iteration, which
  carries the wait computed there. A first attempt that succeeds is one call and no sleep.
\<close>

lemma sleep_and_continue_cases:
  "sleep_and_continue w e = Retry w e \<or> (\<exists>err. sleep_and_continue w e = Raise (Builtin err))"
  by (simp add: sleep_and_continue_def split: option.splits)

lemma plain_backoff_cases:
  "plain_backoff a u e = Retry w x \<Longrightarrow> x = Some e"
  by (auto simp: plain_backoff_def sleep_and_continue_def split: sum.splits option.splits)

lemma step_retry_lt: "attempt_step B mr a out u = Retry w x \<Longrightarrow> int a < mr"
  by (auto simp: attempt_step_def Let_def sleep_and_continue_def plain_backoff_def
      split: outcome.splits if_splits sum.splits option.splits json.splits)

lemma step_exhaustion_ge:
  "attempt_step B mr a out u = Raise e \<Longrightarrow> is_exhaustion e \<Longrightarrow> \<not> int a < mr"
  by (auto simp: attempt_step_def Let_def sleep_and_continue_def plain_backoff_def
      split: outcome.splits if_splits sum.splits option.splits json.splits)

lemma backoff_last:
  assumes "is_backoff (attempt_step B mr a out u)" and "\<not> int a < mr"
  obtains e where "attempt_step B mr a out u = Raise e" and "is_exhaustion e"
  using assms step_retry_lt [of B mr a out u]
  by (cases "attempt_step B mr a out u" rule: is_backoff.cases) auto

lemma backoff_earlier:
  assumes "is_backoff (attempt_step B mr a out u)" and "int a < mr"
  obtains w where "attempt_step B mr a out u = Retry w None"
  using assms step_exhaustion_ge [of B mr a out u]
  by (cases "attempt_step B mr a out u" rule: is_backoff.cases) auto

lemma attempts_all_backoff:
  "int a + int n = mr + 1 \<Longrightarrow> 0 < n \<Longrightarrow>
   (\<forall>k. a \<le> k \<and> int k \<le> mr \<longrightarrow> is_backoff (attempt_step B mr k (calls k) (draws k))) \<Longrightarrow>
   \<exists>tr e. attempts B mr calls draws lastx n a = (tr, Inl e)
      \<and> count_calls tr = n \<and> count_sleeps tr = n - 1
      \<and> attempt_step B mr (nat mr) (calls (nat mr)) (draws (nat mr)) = Raise e
      \<and> is_exhaustion e"
proof (induction n arbitrary: a lastx)
  case 0
  then show ?case by simp
next
  case (Suc n)
  let ?s = "attempt_step B mr a (calls a) (draws a)"
  have b: "is_backoff ?s" using Suc.prems by simp
  show ?case
  proof (cases "n = 0")
    case True
    then have a: "int a = mr" using Suc.prems(1) by simp
    then have "\<not> int a < mr" by simp
    with b obtain e where e: "?s = Raise e" "is_exhaustion e"
      by (rule backoff_last)
    moreover have "nat mr = a" using a by simp
    ultimately show ?thesis using True by (simp add: count_calls_def count_sleeps_def)
  next
    case False
    then have lt: "int a < mr" using Suc.prems(1) by simp
    with b obtain w where w: "?s = Retry w None"
      by (rule backoff_earlier)
    have "\<exists>tr e. attempts B mr calls draws lastx n (Suc a) = (tr, Inl e)
      \<and> count_calls tr = n \<and> count_sleeps tr = n - 1
      \<and> attempt_step B mr (nat mr) (calls (nat mr)) (draws (nat mr)) = Raise e
      \<and> is_exhaustion e"
      using Suc.IH [of "Suc a" lastx] Suc.prems False by simp
    then obtain tr e where "attempts B mr calls draws lastx n (Suc a) = (tr, Inl e)"
      "count_calls tr = n" "count_sleeps tr = n - 1"
      "attempt_step B mr (nat mr) (calls (nat mr)) (draws (nat mr)) = Raise e" "is_exhaustion e"
      by blast
    then show ?thesis using w False by (simp add: count_calls_def count_sleeps_def)
  qed
qed

lemma request_loop_exhausts:
  assumes "0 \<le> mr"
    and "\<forall>k. int k \<le> mr \<longrightarrow> is_backoff (attempt_step B mr k (calls k) (draws k))"
  shows "\<exists>tr e. request_loop B mr calls draws = (tr, Inl e)
      \<and> int (count_calls tr) = mr + 1 \<and> int (count_sleeps tr) = mr
      \<and> attempt_step B mr (nat mr) (calls (nat mr)) (draws (nat mr)) = Raise e
      \<and> is_exhaustion e"
proof -
  have "int 0 + int (nat (mr + 1)) = mr + 1" "0 < nat (mr + 1)" using assms(1) by simp_all
  from attempts_all_backoff [OF this, of B calls draws None] assms(2)
  obtain tr e where "attempts B mr calls draws None (nat (mr + 1)) 0 = (tr, Inl e)"
      "count_calls tr = nat (mr + 1)" "count_sleeps tr = nat (mr + 1) - 1"
      "attempt_step B mr (nat mr) (calls (nat mr)) (draws (nat mr)) = Raise e" "is_exhaustion e"
    by auto
  then show ?thesis using assms(1) by (auto simp: request_loop_def)
qed

lemma request_loop_first_success:
  assumes "0 \<le> mr" and "attempt_step B mr 0 (calls 0) (draws 0) = Return v"
  shows "request_loop B mr calls draws = ([Call 0], Inr v)"
proof -
  obtain n where "nat (mr + 1) = Suc n" using assms(1) by (cases "nat (mr + 1)") auto
  then show ?thesis using assms(2) by (simp add: request_loop_def)
qed

text \<open>
  Claim C8, counterexample. A response with status 422, a validation error, is neither a
  throttle signal nor a flood wait nor a transport failure. With \<open>max_retries = 3\<close> the
  loop does not raise at its first occurrence: it sleeps 1, 2 and 4 seconds (plus jitter,
  here 0), makes four calls, and only then raises the status error.
\<close>

theorem http_status_error_retried:
  "request_loop unused_builtins 3
     (every_attempt (Responds \<lparr>status_code = 422,
         body = Some (JObj [(''detail'', JStr ''chat_id: field required'')]),
         retry_after_header = None, status_error = True\<rparr>))
     (every_attempt 0)
   = ([Call 0, Sleep 1, Call 1, Sleep 2, Call 2, Sleep 4, Call 3],
      Inl (HTTPStatusError 422))"
  by (simp add: request_loop_def every_attempt_def attempt_step_def plain_backoff_def
      sleep_and_continue_def py_sleep_def int_to_float_def uniform_def numeral_eq_Suc)

text \<open>
  Claim C8, as amended. An attempt answered, with a status that is not 429 and for which
  \<^verbatim>\<open>raise_for_status()\<close> does not raise, by a JSON object whose \<open>success\<close> is falsy and
  whose \<open>error_code\<close> and \<open>error\<close>, as ASCII text, do not contain FLOOD_WAIT in any case
  of letters, ends the loop at once with TelegramClientError carrying the \<open>error\<close> value
  as it came: no further call follows and no sleep, whatever the attempt number; as the
  first attempt, the whole loop is one call and no sleep.
\<close>

theorem domain_error_not_retried:
  assumes "calls a = Responds r" and "status_code r \<noteq> 429" and "\<not> status_error r"
    and "body r = Some (JObj result)"
    and "\<not> truthy (dict_get result ''success'' JNull)"
    and "error_msg = dict_get result ''error'' (JStr ''Unknown error'')"
    and "error_code = dict_get result ''error_code'' (JStr [])"
    and "ascii (py_str B error_code)" and "ascii (py_str B error_msg)"
    and "\<not> contains ''FLOOD_WAIT'' (upper (py_str B error_code))"
    and "\<not> contains ''FLOOD_WAIT'' (upper (py_str B error_msg))"
  shows "attempts B max_retries calls draws last_exception (Suc n) a
           = ([Call a], Inl (TelegramClientError error_msg))
       \<and> (a = 0 \<and> 0 \<le> max_retries \<longrightarrow>
            request_loop B max_retries calls draws
              = ([Call 0], Inl (TelegramClientError error_msg))
            \<and> count_calls (fst (request_loop B max_retries calls draws)) = 1
            \<and> count_sleeps (fst (request_loop B max_retries calls draws)) = 0)"
proof -
  have step: "attempt_step B max_retries a (calls a) (draws a)
      = Raise (TelegramClientError error_msg)"
    using assms by (simp add: attempt_step_def Let_def)
  then have one: "\<And>k l. attempts B max_retries calls draws l (Suc k) a
      = ([Call a], Inl (TelegramClientError error_msg))"
    by simp
  show ?thesis
  proof (intro conjI impI)
    show "attempts B max_retries calls draws last_exception (Suc n) a
           = ([Call a], Inl (TelegramClientError error_msg))" by (rule one)
  next
    assume h: "a = 0 \<and> 0 \<le> max_retries"
    then obtain k where k: "nat (max_retries + 1) = Suc k"
      by (cases "nat (max_retries + 1)") auto
    show loop: "request_loop B max_retries calls draws
              = ([Call 0], Inl (TelegramClientError error_msg))"
      using one [of None k] h k by (simp add: request_loop_def)
    show "count_calls (fst (request_loop B max_retries calls draws)) = 1"
      unfolding loop by (simp add: count_calls_def)
    show "count_sleeps (fst (request_loop B max_retries calls draws)) = 0"
      unfolding loop by (simp add: count_sleeps_def)
  qed
qed

theorem domain_error_not_retried_witness:
  "request_loop unused_builtins 3
     (every_attempt (Responds \<lparr>status_code = 200,
         body = Some (JObj [(''success'', JBool False), (''error'', JStr ''Chat not found'')]),
         retry_after_header = None, status_error = False\<rparr>))
     (every_attempt 0)
   = ([Call 0], Inl (TelegramClientError (JStr ''Chat not found'')))"
proof -
  let ?res = "[(''success'', JBool False), (''error'', JStr ''Chat not found'')]"
  let ?r = "\<lparr>status_code = 200, body = Some (JObj ?res),
             retry_after_header = None, status_error = False\<rparr>"
  let ?calls = "every_attempt (Responds ?r)"
  have h1: "?calls 0 = Responds ?r" by (simp add: every_attempt_def)
  have h2: "status_code ?r \<noteq> 429" by simp
  have h3: "\<not> status_error ?r" by simp
  have h4: "body ?r = Some (JObj ?res)" by simp
  have h5: "\<not> truthy (dict_get ?res ''success'' JNull)" by (simp add: dict_get_def)
  have h6: "JStr ''Chat not found'' = dict_get ?res ''error'' (JStr ''Unknown error'')"
    by (simp add: dict_get_def)
  have h7: "JStr [] = dict_get ?res ''error_code'' (JStr [])"
    by (simp add: dict_get_def)
  have h8: "ascii (py_str unused_builtins (JStr []))"
    by (simp add: ascii_def py_str_def)
  have h9: "ascii (py_str unused_builtins (JStr ''Chat not found''))"
    by (simp add: ascii_def py_str_def)
  have h10: "\<not> contains ''FLOOD_WAIT'' (upper (py_str unused_builtins (JStr [])))"
    by (simp add: text_eval)
  have h11: "\<not> contains ''FLOOD_WAIT''
      (upper (py_str unused_builtins (JStr ''Chat not found'')))"
    by (simp add: text_eval)
  have "attempts unused_builtins 3 ?calls (every_attempt 0) None (Suc 0) 0
           = ([Call 0], Inl (TelegramClientError (JStr ''Chat not found'')))
       \<and> ((0::nat) = 0 \<and> (0::int) \<le> 3 \<longrightarrow>
            request_loop unused_builtins 3 ?calls (every_attempt 0)
              = ([Call 0], Inl (TelegramClientError (JStr ''Chat not found'')))
            \<and> count_calls (fst (request_loop unused_builtins 3 ?calls (every_attempt 0))) = 1
            \<and> count_sleeps (fst (request_loop unused_builtins 3 ?calls (every_attempt 0))) = 0)"
    using h1 h2 h3 h4 h5 h6 h7 h8 h9 h10 h11
    by (rule domain_error_not_retried [where r = "?r" and result = "?res"])
  then show ?thesis by simp
qed

section \<open>Properties of the core's operations\<close>

lemma count_simps [simp]:
  "count_global [] = 0" "count_global (GlobalGate # tr) = Suc (count_global tr)"
  "count_global (MessageGate # tr) = count_global tr"
  "count_global (EditGate # tr) = count_global tr"
  "count_global (Provider c # tr) = count_global tr"
  "count_global (FloodSleep s # tr) = count_global tr"
  "count_global (xs @ ys) = count_global xs + count_global ys"
  "count_provider [] = 0" "count_provider (GlobalGate # tr) = count_provider tr"
  "count_provider (MessageGate # tr) = count_provider tr"
  "count_provider (EditGate # tr) = count_provider tr"
  "count_provider (Provider c # tr) = Suc (count_provider tr)"
  "count_provider (FloodSleep s # tr) = count_provider tr"
  "count_provider (xs @ ys) = count_provider xs + count_provider ys"
  by (simp_all add: count_global_def count_provider_def)









section \<open>Properties of concurrent acquisitions\<close>

text \<open>
  Claim C9, counterexample. The gate holds 0 and the minimum interval is 0.2. Two tasks
  start at 0.05 and 0.06; both read the timestamp 0 and both sleep until 0.2. They wake at
  0.2 and 0.21 and record those times: 0.01 apart.
\<close>

theorem gate_race_counterexample:
  "run_sched [Start 0 0.05 0 0.05, Start 1 0.06 0 0.06, Wake 0 0.2, Wake 1 0.21]
     \<lparr>gate = \<lparr>last_request_time = Some 0, min_request_delay = 0.2\<rparr>, clock = 0,
      tasks = [Ready, Ready]\<rparr>
   = Some \<lparr>gate = \<lparr>last_request_time = Some 0.21, min_request_delay = 0.2\<rparr>, clock = 0.21,
           tasks = [Done (Some 0) 0.2, Done (Some 0) 0.21]\<rparr>
   \<and> (0.21::real) - 0.2 < 0.2"
  by (simp add: wait_for_rate_limit_def Let_def)

text \<open>
  Claim C9, as amended. The global gate of the core is not serialized: an acquisition that
  sleeps leaves the gate as it found it until it wakes, so an acquirer that starts during
  that sleep reads the very timestamp the sleeper read.
\<close>

theorem gate_not_serialized:
  assumes "sched_step (Start i c j a) s = Some s1"
    and "sched_step (Start k c' j' a') s1 = Some s2"
    and "snd (wait_for_rate_limit (gate s) c j a) = Some d"
  shows "gate s1 = gate s
       \<and> tasks s1 ! i = Sleeping (last_request_time (gate s)) (c + d)
       \<and> observed (tasks s2 ! k) = Some (last_request_time (gate s))
       \<and> observed (tasks s2 ! i) = Some (last_request_time (gate s))"
proof -
  from assms(1,3) have s1: "s1 = \<lparr>gate = gate s, clock = c,
      tasks = (tasks s)[i := Sleeping (last_request_time (gate s)) (c + d)]\<rparr>"
    and i: "i < length (tasks s)"
    by (auto split: if_splits task.splits)
  from assms(2) have k: "k < length (tasks s1)" and r: "tasks s1 ! k = Ready"
    by (auto split: if_splits task.splits)
  have ki: "k \<noteq> i" using r s1 i by auto
  from assms(2) k r have
    "tasks s2 = (tasks s1)[k := Done (last_request_time (gate s1)) a']
     \<or> (\<exists>w. tasks s2 = (tasks s1)[k := Sleeping (last_request_time (gate s1)) w])"
    by (auto split: if_splits option.splits)
  then have "observed (tasks s2 ! k) = Some (last_request_time (gate s1))"
    and "tasks s2 ! i = tasks s1 ! i"
    using k ki by auto
  then show ?thesis using s1 i by simp
qed

theorem gate_not_serialized_witness:
  "sched_step (Start 0 0.05 0 0.05)
      \<lparr>gate = \<lparr>last_request_time = Some 0, min_request_delay = 0.2\<rparr>, clock = 0,
       tasks = [Ready, Ready]\<rparr>
     = Some \<lparr>gate = \<lparr>last_request_time = Some 0, min_request_delay = 0.2\<rparr>, clock = 0.05,
             tasks = [Sleeping (Some 0) 0.2, Ready]\<rparr>
   \<and> sched_step (Start 1 0.06 0 0.06)
        \<lparr>gate = \<lparr>last_request_time = Some 0, min_request_delay = 0.2\<rparr>, clock = 0.05,
         tasks = [Sleeping (Some 0) 0.2, Ready]\<rparr>
     = Some \<lparr>gate = \<lparr>last_request_time = Some 0, min_request_delay = 0.2\<rparr>, clock = 0.06,
             tasks = [Sleeping (Some 0) 0.2, Sleeping (Some 0) 0.2]\<rparr>
   \<and> observed ([Sleeping (Some 0) 0.2, Sleeping (Some 0) 0.2] ! 1) = Some (Some 0)"
proof -
  let ?g = "\<lparr>last_request_time = Some 0, min_request_delay = 0.2\<rparr>"
  let ?s = "\<lparr>gate = ?g, clock = 0, tasks = [Ready, Ready]\<rparr>"
  let ?s1 = "\<lparr>gate = ?g, clock = 0.05, tasks = [Sleeping (Some 0) 0.2, Ready]\<rparr>"
  let ?s2 = "\<lparr>gate = ?g, clock = 0.06,
              tasks = [Sleeping (Some 0) 0.2, Sleeping (Some 0) 0.2]\<rparr>"
  have h1: "sched_step (Start 0 0.05 0 0.05) ?s = Some ?s1"
    by (simp add: wait_for_rate_limit_def Let_def)
  have h2: "sched_step (Start 1 0.06 0 0.06) ?s1 = Some ?s2"
    by (simp add: wait_for_rate_limit_def Let_def)
  have h3: "snd (wait_for_rate_limit (gate ?s) 0.05 0 0.05) = Some 0.15"
    by (simp add: wait_for_rate_limit_def Let_def)
  from gate_not_serialized [OF h1 h2 h3]
  have "observed (tasks ?s2 ! 1) = Some (last_request_time (gate ?s))" by blast
  then have "observed ([Sleeping (Some 0) 0.2, Sleeping (Some 0) 0.2] ! 1) = Some (Some (0::real))"
    by simp
  with h1 h2 show ?thesis by blast
qed

end
